theory Spec2Isabelle
  imports Main "HOL-Library.Word"
begin

section \<open>JavaScript strings\<close>

text \<open>
  A JavaScript string is a sequence of 16-bit code units. String literals of the source
  are ASCII; \<open>lit\<close> turns an ASCII literal into code units.
\<close>

type_synonym js_string = "16 word list"

definition lit :: "string \<Rightarrow> js_string" where
  "lit s = map (\<lambda>c. of_char c) s"

text \<open>
  \<open>String.prototype.trim\<close> strips the code units that ECMAScript calls WhiteSpace
  (TAB, VT, FF, ZWNBSP and the space separators) or LineTerminator (LF, CR, LS, PS)
  from both ends.
\<close>

definition isWhiteSpace :: "16 word \<Rightarrow> bool" where
  "isWhiteSpace c =
     (c = 0x0009 \<or> c = 0x000B \<or> c = 0x000C \<or> c = 0xFEFF
      \<or> c = 0x0020 \<or> c = 0x00A0 \<or> c = 0x1680 \<or> (0x2000 \<le> c \<and> c \<le> 0x200A)
      \<or> c = 0x202F \<or> c = 0x205F \<or> c = 0x3000
      \<or> c = 0x000A \<or> c = 0x000D \<or> c = 0x2028 \<or> c = 0x2029)"

definition trim :: "js_string \<Rightarrow> js_string" where
  "trim s = rev (dropWhile isWhiteSpace (rev (dropWhile isWhiteSpace s)))"

text \<open>Truthiness of a value that is a string, \<open>null\<close> or \<open>undefined\<close>.\<close>

definition truthy :: "js_string option \<Rightarrow> bool" where
  "truthy v = (case v of None \<Rightarrow> False | Some s \<Rightarrow> s \<noteq> [])"

text \<open>Decimal rendering of a number inside a template literal.\<close>

fun toString :: "nat \<Rightarrow> js_string" where
  "toString n =
     (if n < 10 then [of_nat (48 + n)]
      else toString (n div 10) @ [of_nat (48 + n mod 10)])"

declare toString.simps [simp del]

text \<open>
  The reading of the word ``blank'' used for the log stream: a payload is blank when it
  has no code unit other than white space (the empty payload included).
\<close>

definition blank :: "js_string \<Rightarrow> bool" where
  "blank s = list_all isWhiteSpace s"

section \<open>Component state\<close>

record File =
  name :: js_string
  type :: js_string

datatype slot = answer | question

record App =
  answerScript :: "File option"
  questionPaper :: "File option"
  evaluationId :: "js_string option"
  isLoading :: bool
  error :: "js_string option"
  uploadStatus :: js_string
  logs :: "js_string list"
  isEvaluating :: bool

definition initial :: App where
  "initial =
     \<lparr>answerScript = None, questionPaper = None, evaluationId = None, isLoading = False,
      error = None, uploadStatus = [], logs = [], isEvaluating = False\<rparr>"

definition API_BASE_URL :: js_string where
  "API_BASE_URL = lit ''https://ai-script-grader-backend.onrender.com''"

section \<open>File selection\<close>

text \<open>The first argument is \<open>e.target.files?.[0]\<close>: the chosen file, if there is one.\<close>

definition handleFileChange :: "File option \<Rightarrow> slot \<Rightarrow> App \<Rightarrow> App" where
  "handleFileChange file ty s =
     (case file of
        Some f \<Rightarrow>
          if type f = lit ''application/pdf''
          then (case ty of
                  answer \<Rightarrow> s\<lparr>answerScript := Some f\<rparr>
                | question \<Rightarrow> s\<lparr>questionPaper := Some f\<rparr>)\<lparr>error := None\<rparr>
          else s\<lparr>error := Some (lit ''Please upload a valid PDF file'')\<rparr>
      | None \<Rightarrow> s\<lparr>error := Some (lit ''Please upload a valid PDF file'')\<rparr>)"

section \<open>Requests and responses\<close>

text \<open>
  What a rejected promise or a \<open>throw\<close> carries: an \<open>Error\<close> with its message, or some
  other value (\<open>err instanceof Error\<close> tells them apart).
\<close>

datatype thrown = Error js_string | NonError

text \<open>
  An object that \<open>response.json()\<close> resolves with, read at the fields the interface
  \<open>UploadResponse\<close> declares, each a string where it is present. A field that is left
  out or is \<open>null\<close> is falsy and is \<open>None\<close> here.
\<close>

record UploadResponse =
  data_status :: "js_string option"
  message :: "js_string option"
  evaluation_id :: "js_string option"

text \<open>
  What \<open>response.json()\<close> resolves with: \<open>null\<close>, or a value whose properties can be
  read. A number, a string, a boolean and an array have neither of the properties read
  here, and are the object with every field \<open>None\<close>.
\<close>

datatype json_body = JsonNull | JsonObject UploadResponse

text \<open>
  Reading a property of \<open>null\<close> throws a \<open>TypeError\<close>. Its message is the engine's; this
  is the text of V8, with the property name between single quotes.
\<close>

definition TypeError_null :: "js_string \<Rightarrow> js_string" where
  "TypeError_null property =
     lit ''Cannot read properties of null (reading '' @ [0x0027] @ property @ [0x0027]
     @ lit '')''"

type_synonym Blob = "8 word list"

text \<open>
  A response: its status, and what \<open>response.json()\<close> and \<open>response.blob()\<close> settle
  with (\<open>Inl\<close> when the promise rejects, as \<open>json()\<close> does on a body that is not JSON).
\<close>

record Response =
  status :: nat
  json :: "thrown + json_body"
  blob :: "thrown + Blob"

definition ok :: "Response \<Rightarrow> bool" where
  "ok response = (200 \<le> status response \<and> status response \<le> 299)"

text \<open>What \<open>fetch\<close> settles with: \<open>Inl\<close> when the request fails before a response.\<close>

type_synonym fetch_result = "thrown + Response"

record Request =
  resource :: js_string
  http_method :: js_string
  accept :: js_string
  mode :: js_string
  credentials :: js_string
  body :: "(js_string \<times> File) list"

section \<open>Upload\<close>

definition upload_request :: "File \<Rightarrow> File \<Rightarrow> Request" where
  "upload_request a q =
     \<lparr>resource = API_BASE_URL @ lit ''/upload-pdfs/'', http_method = lit ''POST'',
      accept = lit ''application/json'', mode = lit ''cors'', credentials = lit ''include'',
      body = [(lit ''answer_script'', a), (lit ''question_paper'', q)]\<rparr>"

text \<open>
  The part of \<open>handleUpload\<close> that runs before \<open>await fetch\<close>: the new state and the
  request sent, if one is.
\<close>

definition handleUpload_begin :: "App \<Rightarrow> App \<times> Request option" where
  "handleUpload_begin s =
     (case answerScript s of
        None \<Rightarrow>
          (s\<lparr>error := Some (lit ''Please upload both answer script and question paper'')\<rparr>,
           None)
      | Some a \<Rightarrow>
          (case questionPaper s of
             None \<Rightarrow>
               (s\<lparr>error :=
                    Some (lit ''Please upload both answer script and question paper'')\<rparr>,
                None)
           | Some q \<Rightarrow>
               (s\<lparr>isLoading := True, error := None,
                  uploadStatus := lit ''Uploading files...'', logs := [],
                  isEvaluating := False\<rparr>,
                Some (upload_request a q))))"

text \<open>
  The \<open>try\<close> block after the request settles: the job id, or what was thrown. The
  argument of \<open>new Error\<close> is evaluated first, so reading \<open>data.message\<close> of \<open>null\<close>
  throws the \<open>TypeError\<close> in place of the error being built.
\<close>

definition upload_try :: "fetch_result \<Rightarrow> thrown + js_string option" where
  "upload_try r =
     (case r of
        Inl e \<Rightarrow> Inl e
      | Inr response \<Rightarrow>
          if status response = 502
          then Inl (Error
                 (lit ''Server is currently unavailable. Please try again in a few moments.''))
          else (case json response of
                  Inl e \<Rightarrow> Inl e
                | Inr data \<Rightarrow>
                    if \<not> ok response
                    then (case data of
                            JsonNull \<Rightarrow> Inl (Error (TypeError_null (lit ''message'')))
                          | JsonObject d \<Rightarrow>
                              Inl (Error
                                (if truthy (message d) then the (message d)
                                 else lit ''Upload failed (Status: ''
                                      @ toString (status response) @ lit '')'')))
                    else (case data of
                            JsonNull \<Rightarrow> Inl (Error (TypeError_null (lit ''evaluation_id'')))
                          | JsonObject d \<Rightarrow> Inr (evaluation_id d))))"

definition handleUpload_resume :: "fetch_result \<Rightarrow> App \<Rightarrow> App" where
  "handleUpload_resume r s =
     (case upload_try r of
        Inr new_id \<Rightarrow>
          s\<lparr>evaluationId := new_id, uploadStatus := lit ''Evaluation in progress...'',
            isEvaluating := True, isLoading := False\<rparr>
      | Inl err \<Rightarrow>
          s\<lparr>error := Some (case err of Error m \<Rightarrow> m
                             | NonError \<Rightarrow> lit ''An unknown error occurred''),
            uploadStatus := [], isLoading := False\<rparr>)"

text \<open>The whole of \<open>handleUpload\<close> when nothing else happens while the request is out.\<close>

definition handleUpload :: "fetch_result \<Rightarrow> App \<Rightarrow> App \<times> Request list" where
  "handleUpload r s =
     (case handleUpload_begin s of
        (s', None) \<Rightarrow> (s', [])
      | (s', Some req) \<Rightarrow> (handleUpload_resume r s', [req]))"

section \<open>Download\<close>

definition download_request :: "js_string \<Rightarrow> Request" where
  "download_request j =
     \<lparr>resource = API_BASE_URL @ lit ''/get-evaluated-pdf/'' @ j, http_method = lit ''GET'',
      accept = lit ''application/json'', mode = lit ''cors'', credentials = lit ''include'',
      body = []\<rparr>"

text \<open>The anchor element built for the save, and what is done with it and the object URL.\<close>

record Anchor =
  href :: Blob
  download :: js_string

datatype dom_effect =
    CreateObjectURL Blob
  | AppendChild Anchor
  | Click Anchor
  | RevokeObjectURL Blob
  | RemoveChild Anchor

text \<open>
  Before \<open>await fetch\<close>: the job id the closure holds and the request, or nothing when
  \<open>evaluationId\<close> is falsy.
\<close>

definition handleDownload_begin :: "App \<Rightarrow> (js_string \<times> Request) option" where
  "handleDownload_begin s =
     (if truthy (evaluationId s)
      then Some (the (evaluationId s), download_request (the (evaluationId s)))
      else None)"

definition download_try :: "js_string \<Rightarrow> fetch_result \<Rightarrow> thrown + dom_effect list" where
  "download_try j r =
     (case r of
        Inl e \<Rightarrow> Inl e
      | Inr response \<Rightarrow>
          if status response = 502
          then Inl (Error
                 (lit ''Server is currently unavailable. Please try again in a few moments.''))
          else if \<not> ok response
          then Inl (Error (lit ''Failed to download PDF (Status: ''
                           @ toString (status response) @ lit '')''))
          else (case blob response of
                  Inl e \<Rightarrow> Inl e
                | Inr b \<Rightarrow>
                    (let a = \<lparr>href = b,
                              download = lit ''evaluated_script_'' @ j @ lit ''.pdf''\<rparr>
                     in Inr [CreateObjectURL b, AppendChild a, Click a, RevokeObjectURL b,
                             RemoveChild a])))"

definition handleDownload_resume ::
  "js_string \<Rightarrow> fetch_result \<Rightarrow> App \<Rightarrow> App \<times> dom_effect list" where
  "handleDownload_resume j r s =
     (case download_try j r of
        Inr effects \<Rightarrow> (s, effects)
      | Inl err \<Rightarrow>
          (s\<lparr>error := Some (case err of Error m \<Rightarrow> m
                              | NonError \<Rightarrow> lit ''Failed to download PDF'')\<rparr>,
           []))"

text \<open>The whole of \<open>handleDownload\<close>: new state, requests sent, what was done to the page.\<close>

definition handleDownload :: "fetch_result \<Rightarrow> App \<Rightarrow> App \<times> Request list \<times> dom_effect list" where
  "handleDownload r s =
     (case handleDownload_begin s of
        None \<Rightarrow> (s, [], [])
      | Some (j, req) \<Rightarrow>
          (case handleDownload_resume j r s of (s', effects) \<Rightarrow> (s', [req], effects)))"

text \<open>The file names that a run of \<open>handleDownload\<close> offered for saving.\<close>

fun saved_names :: "dom_effect list \<Rightarrow> js_string list" where
  "saved_names [] = []"
| "saved_names (Click a # es) = download a # saved_names es"
| "saved_names (e # es) = saved_names es"

section \<open>The log stream\<close>

datatype ready_state = CONNECTING | OPEN | CLOSED

record EventSource =
  url :: js_string
  withCredentials :: bool
  readyState :: ready_state

text \<open>
  The component in its surroundings: the React state \<open>ui\<close>; every \<open>EventSource\<close> object
  made so far, an object being its position in \<open>sources\<close>; the variable \<open>eventSource\<close> of
  the latest run of the effect; the dependency values \<open>[evaluationId, isEvaluating]\<close> of
  that run; the requests sent and what was done to the page.
\<close>

record world =
  ui :: App
  sources :: "EventSource list"
  eventSource :: "nat option"
  deps :: "js_string option \<times> bool"
  requests :: "Request list"
  page :: "dom_effect list"

definition set_ready :: "nat \<Rightarrow> ready_state \<Rightarrow> world \<Rightarrow> world" where
  "set_ready i rs w = w\<lparr>sources := (sources w)[i := (sources w ! i)\<lparr>readyState := rs\<rparr>]\<rparr>"

text \<open>\<open>EventSource.close()\<close> on the object at position \<open>i\<close>.\<close>

definition close :: "nat \<Rightarrow> world \<Rightarrow> world" where
  "close i w = set_ready i CLOSED w"

text \<open>The function the effect returns: \<open>eventSource?.close()\<close>.\<close>

definition cleanup :: "world \<Rightarrow> world" where
  "cleanup w = (case eventSource w of None \<Rightarrow> w | Some i \<Rightarrow> close i w)"

text \<open>The body of the effect. A new \<open>EventSource\<close> starts out connecting.\<close>

definition effect :: "world \<Rightarrow> world" where
  "effect w =
     (if truthy (evaluationId (ui w)) \<and> isEvaluating (ui w)
      then w\<lparr>sources := sources w @
                [\<lparr>url = API_BASE_URL @ lit ''/evaluation-logs/'' @ the (evaluationId (ui w)),
                  withCredentials = True, readyState = CONNECTING\<rparr>],
              eventSource := Some (length (sources w))\<rparr>
      else w\<lparr>eventSource := None\<rparr>)"

text \<open>
  After a handler has run, React renders with the state updates of that handler taken
  together; when a dependency of the effect has changed, it runs the cleanup of the
  previous run and then the effect again.
\<close>

definition commit :: "world \<Rightarrow> world" where
  "commit w =
     (let d = (evaluationId (ui w), isEvaluating (ui w))
      in if d = deps w then w else (effect (cleanup w))\<lparr>deps := d\<rparr>)"

definition onmessage :: "js_string \<Rightarrow> App \<Rightarrow> App" where
  "onmessage data s = (if trim data \<noteq> [] then s\<lparr>logs := logs s @ [data]\<rparr> else s)"

text \<open>
  The \<open>onerror\<close> handler of the source at position \<open>i\<close>; \<open>is_event\<close> is
  \<open>error instanceof Event\<close>. The event's target is the source the handler is set on.
\<close>

definition onerror :: "nat \<Rightarrow> bool \<Rightarrow> world \<Rightarrow> world" where
  "onerror i is_event w =
     (let w1 = close i w;
          w2 = w1\<lparr>ui := (ui w1)\<lparr>isEvaluating := False,
                                  uploadStatus := lit ''Evaluation completed''\<rparr>\<rparr>
      in if is_event \<and> readyState (sources w2 ! i) = CLOSED
         then w2\<lparr>ui := (ui w2)\<lparr>error :=
                  Some (lit ''Connection to server lost. Please refresh the page and try again.'')\<rparr>\<rparr>
         else w2)"

definition mounted :: world where
  "mounted =
     \<lparr>ui = initial, sources = [], eventSource = None, deps = (None, False), requests = [],
      page = []\<rparr>"

text \<open>
  What can happen to the mounted component. A stream event carries the position of the
  source it is dispatched at; a source that is closed dispatches nothing. An error event
  carries the state the transport has put the source in when it dispatches: \<open>CONNECTING\<close>
  when the connection dropped and is being re-established, \<open>CLOSED\<close> when it failed for
  good. The browser passes an \<open>Event\<close> to the handler. A settled request carries what
  \<open>fetch\<close> settled with; a settled download also the job id its closure holds.
\<close>

datatype event =
    FileChange slot "File option"
  | UploadClick
  | UploadSettled fetch_result
  | DownloadClick
  | DownloadSettled js_string fetch_result
  | StreamOpened nat
  | StreamMessage nat js_string
  | StreamError nat ready_state

definition live :: "world \<Rightarrow> nat \<Rightarrow> bool" where
  "live w i = (i < length (sources w) \<and> readyState (sources w ! i) \<noteq> CLOSED)"

fun fire :: "event \<Rightarrow> world \<Rightarrow> world" where
  "fire (FileChange ty file) w = commit (w\<lparr>ui := handleFileChange file ty (ui w)\<rparr>)"
| "fire UploadClick w =
     (case handleUpload_begin (ui w) of
        (s, req) \<Rightarrow>
          commit (w\<lparr>ui := s,
                    requests := requests w @ (case req of None \<Rightarrow> [] | Some q \<Rightarrow> [q])\<rparr>))"
| "fire (UploadSettled r) w = commit (w\<lparr>ui := handleUpload_resume r (ui w)\<rparr>)"
| "fire DownloadClick w =
     (case handleDownload_begin (ui w) of
        None \<Rightarrow> w
      | Some (j, req) \<Rightarrow> w\<lparr>requests := requests w @ [req]\<rparr>)"
| "fire (DownloadSettled j r) w =
     (case handleDownload_resume j r (ui w) of
        (s, effects) \<Rightarrow> commit (w\<lparr>ui := s, page := page w @ effects\<rparr>))"
| "fire (StreamOpened i) w =
     (if i < length (sources w) \<and> readyState (sources w ! i) = CONNECTING
      then set_ready i OPEN w else w)"
| "fire (StreamMessage i data) w =
     (if live w i then commit (w\<lparr>ui := onmessage data (ui w)\<rparr>) else w)"
| "fire (StreamError i rs) w =
     (if live w i then commit (onerror i True (set_ready i rs w)) else w)"

fun run :: "event list \<Rightarrow> world \<Rightarrow> world" where
  "run [] w = w"
| "run (e # es) w = run es (fire e w)"

text \<open>The subscriptions that are not closed.\<close>

definition subscriptions :: "world \<Rightarrow> EventSource list" where
  "subscriptions w = filter (\<lambda>e. readyState e \<noteq> CLOSED) (sources w)"

section \<open>Reachable states and example sessions\<close>

text \<open>
  The invariant of the mounted component: the effect has run for the current
  dependency values, and a source that is not closed is the one the latest run of the
  effect made, for the current job id, while the session is evaluating.
\<close>

definition consistent :: "world \<Rightarrow> bool" where
  "consistent w =
     (deps w = (evaluationId (ui w), isEvaluating (ui w)) \<and>
      (\<forall>i. live w i \<longrightarrow>
         eventSource w = Some i \<and> isEvaluating (ui w) \<and> truthy (evaluationId (ui w)) \<and>
         url (sources w ! i) = API_BASE_URL @ lit ''/evaluation-logs/'' @ the (evaluationId (ui w))))"

text \<open>
  The file a slot holds.
\<close>

definition selected :: "slot \<Rightarrow> App \<Rightarrow> File option" where
  "selected ty s = (case ty of answer \<Rightarrow> answerScript s | question \<Rightarrow> questionPaper s)"

text \<open>
  Files, responses and sessions used as concrete inputs below.
\<close>

definition png_file :: File where
  "png_file = \<lparr>name = lit ''scan.png'', type = lit ''image/png''\<rparr>"

definition pdf_file :: File where
  "pdf_file = \<lparr>name = lit ''script.pdf'', type = lit ''application/pdf''\<rparr>"

text \<open>
  An upload attempt that fails: no response, status 502, another status outside
  200--299, or a body that does not parse.
\<close>

definition failed_attempt :: "fetch_result \<Rightarrow> bool" where
  "failed_attempt r =
     (case r of
        Inl e \<Rightarrow> True
      | Inr response \<Rightarrow> status response = 502 \<or> \<not> ok response \<or> isl (json response))"

definition ok_response :: "js_string \<Rightarrow> Response" where
  "ok_response j =
     \<lparr>status = 200,
      json = Inr (JsonObject \<lparr>data_status = Some (lit ''success''),
                             message = Some (lit ''Files uploaded''), evaluation_id = Some j\<rparr>),
      blob = Inr []\<rparr>"

definition two_pdfs :: "event list" where
  "two_pdfs = [FileChange answer (Some pdf_file), FileChange question (Some pdf_file)]"

definition upload_abc :: "event list" where
  "upload_abc = two_pdfs @ [UploadClick, UploadSettled (Inr (ok_response (lit ''abc123'')))]"

text \<open>
  A source that exists and is closed.
\<close>

definition gone :: "world \<Rightarrow> nat \<Rightarrow> bool" where
  "gone w i = (i < length (sources w) \<and> readyState (sources w ! i) = CLOSED)"

definition streaming :: "event list" where
  "streaming = upload_abc @ [StreamOpened 0, StreamMessage 0 (lit ''line1'')]"

definition html_error_response :: Response where
  "html_error_response =
     \<lparr>status = 500, json = Inl (Error (lit ''Unexpected token < in JSON at position 0'')),
      blob = Inr []\<rparr>"

definition null_error_response :: Response where
  "null_error_response = \<lparr>status = 500, json = Inr JsonNull, blob = Inr []\<rparr>"

definition json_error_response :: "js_string option \<Rightarrow> Response" where
  "json_error_response m =
     \<lparr>status = 404,
      json = Inr (JsonObject \<lparr>data_status = Some (lit ''error''), message = m,
                               evaluation_id = None\<rparr>),
      blob = Inr []\<rparr>"

section \<open>Properties\<close>

subsection \<open>Auxiliary facts\<close>

lemma live_frame [simp]:
  "live (w\<lparr>ui := s\<rparr>) = live w"
  "live (w\<lparr>requests := rq\<rparr>) = live w"
  "live (w\<lparr>page := pg\<rparr>) = live w"
  by (simp_all add: live_def fun_eq_iff)

lemma live_set_ready:
  "live (set_ready i rs w) k = (if k = i then i < length (sources w) \<and> rs \<noteq> CLOSED else live w k)"
  by (auto simp: live_def set_ready_def)

lemma url_set_ready:
  "k < length (sources w) \<Longrightarrow> url (sources (set_ready i rs w) ! k) = url (sources w ! k)"
  by (cases "k = i") (auto simp: set_ready_def)

lemma length_set_ready [simp]: "length (sources (set_ready i rs w)) = length (sources w)"
  by (simp add: set_ready_def)

lemma sources_onerror: "sources (onerror i b w) = sources (set_ready i CLOSED w)"
  by (simp add: onerror_def Let_def close_def)

lemma live_onerror: "live (onerror i b w) k = (live w k \<and> k \<noteq> i)"
  by (auto simp: onerror_def Let_def close_def live_set_ready)

lemma live_cleanup:
  "live (cleanup w) k = (live w k \<and> eventSource w \<noteq> Some k)"
  by (cases "eventSource w") (auto simp: cleanup_def close_def live_set_ready)

lemma mounted_consistent: "consistent mounted"
  by (simp add: consistent_def mounted_def initial_def live_def)

lemma commit_consistent:
  assumes "consistent w"
    and "\<And>i. live w' i \<Longrightarrow> live w i \<and> url (sources w' ! i) = url (sources w ! i)"
    and "eventSource w' = eventSource w" and "deps w' = deps w"
  shows "consistent (commit w')"
proof (cases "(evaluationId (ui w'), isEvaluating (ui w')) = deps w'")
  case True
  then have "commit w' = w'" by (simp add: commit_def)
  moreover have "consistent w'"
    using assms True unfolding consistent_def by (metis prod.inject)
  ultimately show ?thesis by simp
next
  case False
  have quiet: "\<not> live (cleanup w') k" for k
    using assms(1,2,3) by (auto simp: live_cleanup consistent_def)
  have len: "length (sources (cleanup w')) = length (sources w')"
    by (simp add: cleanup_def close_def set_ready_def split: option.splits)
  have uic: "ui (cleanup w') = ui w'"
    by (simp add: cleanup_def close_def set_ready_def split: option.splits)
  from False have c: "commit w' = (effect (cleanup w'))\<lparr>deps := (evaluationId (ui w'), isEvaluating (ui w'))\<rparr>"
    by (simp add: commit_def Let_def)
  show ?thesis
    unfolding c consistent_def using quiet uic
    by (auto simp: effect_def live_def nth_append split: if_splits)
qed

lemma fire_consistent: "consistent w \<Longrightarrow> consistent (fire e w)"
proof (cases e)
  case (FileChange ty f)
  assume "consistent w"
  then show ?thesis unfolding FileChange fire.simps
    by (rule commit_consistent) simp_all
next
  case UploadClick
  assume "consistent w"
  then show ?thesis unfolding UploadClick fire.simps
    by (cases "handleUpload_begin (ui w)") (auto intro: commit_consistent)
next
  case (UploadSettled r)
  assume "consistent w"
  then show ?thesis unfolding UploadSettled fire.simps
    by (rule commit_consistent) simp_all
next
  case DownloadClick
  assume "consistent w"
  then show ?thesis unfolding DownloadClick
    by (auto simp: consistent_def live_def split: option.splits)
next
  case (DownloadSettled j r)
  assume "consistent w"
  then show ?thesis unfolding DownloadSettled fire.simps
    by (cases "handleDownload_resume j r (ui w)") (auto intro: commit_consistent)
next
  case (StreamOpened i)
  assume "consistent w"
  then show ?thesis unfolding StreamOpened
    by (auto simp: consistent_def live_set_ready url_set_ready set_ready_def live_def nth_list_update)
next
  case (StreamMessage i d)
  assume "consistent w"
  then show ?thesis unfolding StreamMessage fire.simps
    by (auto intro: commit_consistent)
next
  case (StreamError i rs)
  assume c: "consistent w"
  show ?thesis
  proof (cases "live w i")
    case False
    with c show ?thesis unfolding StreamError by simp
  next
    case True
    have "consistent (commit (onerror i True (set_ready i rs w)))"
      using c
    proof (rule commit_consistent)
      fix k assume "live (onerror i True (set_ready i rs w)) k"
      then have "k \<noteq> i" and "live (set_ready i rs w) k"
        by (simp_all add: live_onerror)
      then have lw: "live w k"
        by (simp add: live_set_ready)
      then have "k < length (sources w)"
        by (simp add: live_def)
      then have "url (sources (onerror i True (set_ready i rs w)) ! k) = url (sources w ! k)"
        by (simp add: sources_onerror url_set_ready)
      with lw show "live w k \<and> url (sources (onerror i True (set_ready i rs w)) ! k) = url (sources w ! k)"
        by simp
    qed (simp_all add: onerror_def Let_def close_def set_ready_def)
    with True show ?thesis unfolding StreamError by simp
  qed
qed

lemma run_consistent: "consistent w \<Longrightarrow> consistent (run es w)"
  by (induction es arbitrary: w) (simp_all add: fire_consistent)

lemma reachable_consistent: "consistent (run es mounted)"
  by (rule run_consistent [OF mounted_consistent])

lemma ui_commit [simp]: "ui (commit w) = ui w"
  by (simp add: commit_def Let_def effect_def cleanup_def close_def set_ready_def split: option.splits)

lemma commit_same: "deps w = (evaluationId (ui w), isEvaluating (ui w)) \<Longrightarrow> commit w = w"
  by (simp add: commit_def)

lemma handleUpload_populated:
  "answerScript s = Some a \<Longrightarrow> questionPaper s = Some q \<Longrightarrow>
   handleUpload r s =
     (handleUpload_resume r
        (s\<lparr>isLoading := True, error := None, uploadStatus := lit ''Uploading files...'',
           logs := [], isEvaluating := False\<rparr>),
      [upload_request a q])"
  by (simp add: handleUpload_def handleUpload_begin_def)

lemma failed_attempt_throws: "failed_attempt r \<Longrightarrow> \<exists>e. upload_try r = Inl e"
  by (auto simp: failed_attempt_def upload_try_def isl_def split: sum.splits json_body.splits)

lemma handleUpload_resume_failed:
  "upload_try r = Inl e \<Longrightarrow>
   evaluationId (handleUpload_resume r s) = evaluationId s \<and>
   logs (handleUpload_resume r s) = logs s"
  by (simp add: handleUpload_resume_def)

lemma subscriptions_empty_iff: "subscriptions w = [] \<longleftrightarrow> (\<forall>i. \<not> live w i)"
  by (auto simp: subscriptions_def live_def filter_empty_conv all_set_conv_all_nth)

lemma requests_commit [simp]: "requests (commit w) = requests w"
  by (simp add: commit_def Let_def effect_def cleanup_def close_def set_ready_def split: option.splits)

lemma page_commit [simp]: "page (commit w) = page w"
  by (simp add: commit_def Let_def effect_def cleanup_def close_def set_ready_def split: option.splits)

lemma ui_cleanup [simp]: "ui (cleanup w) = ui w"
  by (simp add: cleanup_def close_def set_ready_def split: option.splits)

lemma subscriptions_frame [simp]:
  "subscriptions (w\<lparr>ui := s\<rparr>) = subscriptions w"
  "subscriptions (w\<lparr>deps := d\<rparr>) = subscriptions w"
  "subscriptions (w\<lparr>requests := rq\<rparr>) = subscriptions w"
  "subscriptions (w\<lparr>eventSource := e\<rparr>) = subscriptions w"
  by (simp_all add: subscriptions_def)

lemma subscriptions_cleanup:
  assumes "\<And>i. live w i \<Longrightarrow> eventSource w = Some i"
  shows "subscriptions (cleanup w) = []"
  using assms by (auto simp: subscriptions_empty_iff live_cleanup)

lemma subscriptions_effect:
  "subscriptions (effect w) =
     (if truthy (evaluationId (ui w)) \<and> isEvaluating (ui w)
      then subscriptions w @
             [\<lparr>url = API_BASE_URL @ lit ''/evaluation-logs/'' @ the (evaluationId (ui w)),
               withCredentials = True, readyState = CONNECTING\<rparr>]
      else subscriptions w)"
  by (simp add: effect_def subscriptions_def)

lemma subscriptions_commit:
  assumes "\<And>i. live w i \<Longrightarrow> eventSource w = Some i"
    and "deps w \<noteq> (evaluationId (ui w), isEvaluating (ui w))"
  shows "subscriptions (commit w) =
     (if truthy (evaluationId (ui w)) \<and> isEvaluating (ui w)
      then [\<lparr>url = API_BASE_URL @ lit ''/evaluation-logs/'' @ the (evaluationId (ui w)),
             withCredentials = True, readyState = CONNECTING\<rparr>]
      else [])"
proof -
  have "commit w = (effect (cleanup w))\<lparr>deps := (evaluationId (ui w), isEvaluating (ui w))\<rparr>"
    using assms(2) by (auto simp: commit_def Let_def)
  then show ?thesis
    by (simp add: subscriptions_effect subscriptions_cleanup [OF assms(1)])
qed

lemma consistent_idle: "consistent w \<Longrightarrow> \<not> isEvaluating (ui w) \<Longrightarrow> subscriptions w = []"
  by (auto simp: subscriptions_empty_iff consistent_def)

lemma fire_UploadClick_populated:
  assumes "answerScript (ui w) = Some a" and "questionPaper (ui w) = Some q"
  shows "fire UploadClick w =
     commit (w\<lparr>ui := (ui w)\<lparr>isLoading := True, error := None,
                           uploadStatus := lit ''Uploading files...'', logs := [],
                           isEvaluating := False\<rparr>,
               requests := requests w @ [upload_request a q]\<rparr>)"
  using assms by (simp add: handleUpload_begin_def)


lemma ok_not_502: "ok response \<Longrightarrow> status response \<noteq> 502"
  by (simp add: ok_def)

lemma trim_empty_iff: "trim s = [] \<longleftrightarrow> blank s"
proof
  assume "blank s"
  then have "dropWhile isWhiteSpace s = []"
    by (simp add: blank_def list_all_iff)
  then show "trim s = []" by (simp only: trim_def rev.simps dropWhile.simps)
next
  assume t: "trim s = []"
  show "blank s"
  proof (rule ccontr)
    assume "\<not> blank s"
    then have ne: "dropWhile isWhiteSpace s \<noteq> []"
      by (simp add: blank_def list_all_iff)
    then have "\<not> isWhiteSpace (hd (dropWhile isWhiteSpace s))"
      by (rule hd_dropWhile)
    moreover have "hd (dropWhile isWhiteSpace s) \<in> set (rev (dropWhile isWhiteSpace s))"
      using ne by simp
    ultimately have "dropWhile isWhiteSpace (rev (dropWhile isWhiteSpace s)) \<noteq> []"
      by auto
    with t show False by (simp add: trim_def)
  qed
qed

lemma fire_StreamMessage_live:
  assumes "consistent w" and "live w i"
  shows "fire (StreamMessage i d) w = w\<lparr>ui := onmessage d (ui w)\<rparr>"
proof -
  have "deps (w\<lparr>ui := onmessage d (ui w)\<rparr>) =
      (evaluationId (ui (w\<lparr>ui := onmessage d (ui w)\<rparr>)), isEvaluating (ui (w\<lparr>ui := onmessage d (ui w)\<rparr>)))"
    using assms(1) by (simp add: consistent_def onmessage_def)
  then have "commit (w\<lparr>ui := onmessage d (ui w)\<rparr>) = w\<lparr>ui := onmessage d (ui w)\<rparr>"
    by (rule commit_same)
  with assms(2) show ?thesis by simp
qed

lemma messages_append:
  "consistent w \<Longrightarrow> live w i \<Longrightarrow>
   logs (ui (run (map (StreamMessage i) ps) w)) = logs (ui w) @ filter (\<lambda>p. \<not> blank p) ps"
proof (induction ps arbitrary: w)
  case Nil
  then show ?case by simp
next
  case (Cons p ps)
  let ?w' = "w\<lparr>ui := onmessage p (ui w)\<rparr>"
  have f: "fire (StreamMessage i p) w = ?w'"
    using Cons.prems by (rule fire_StreamMessage_live)
  have "consistent ?w'"
    using fire_consistent [OF Cons.prems(1), of "StreamMessage i p"] by (simp only: f)
  moreover have "live ?w' i"
    using Cons.prems(2) by simp
  ultimately have "logs (ui (run (map (StreamMessage i) ps) ?w')) =
      logs (ui ?w') @ filter (\<lambda>p. \<not> blank p) ps"
    by (rule Cons.IH)
  then show ?case
    by (simp only: list.map run.simps f) (simp add: onmessage_def trim_empty_iff)
qed




lemma gone_frame [simp]:
  "gone (w\<lparr>ui := s\<rparr>) = gone w"
  "gone (w\<lparr>requests := rq\<rparr>) = gone w"
  "gone (w\<lparr>page := pg\<rparr>) = gone w"
  "gone (w\<lparr>deps := d\<rparr>) = gone w"
  "gone (w\<lparr>eventSource := e\<rparr>) = gone w"
  by (simp_all add: gone_def fun_eq_iff)

lemma gone_set_ready: "gone w k \<Longrightarrow> k \<noteq> i \<or> rs = CLOSED \<Longrightarrow> gone (set_ready i rs w) k"
  by (cases "k = i") (auto simp: gone_def set_ready_def)

lemma gone_cleanup: "gone w k \<Longrightarrow> gone (cleanup w) k"
  by (auto simp: cleanup_def close_def gone_set_ready split: option.splits)

lemma gone_effect: "gone w k \<Longrightarrow> gone (effect w) k"
  by (auto simp: effect_def gone_def nth_append)

lemma gone_commit: "gone w k \<Longrightarrow> gone (commit w) k"
  by (simp add: commit_def Let_def gone_effect gone_cleanup)





lemma length_sources_commit: "length (sources w) \<le> length (sources (commit w))"
  by (simp add: commit_def Let_def effect_def cleanup_def close_def set_ready_def split: option.splits)

lemma lit_nonempty: "lit (c # cs) \<noteq> []"
  by (simp add: lit_def)

lemma two_pdfs_world:
  "run two_pdfs mounted =
     mounted\<lparr>ui := initial\<lparr>answerScript := Some pdf_file, questionPaper := Some pdf_file\<rparr>\<rparr>"
  by (simp add: two_pdfs_def mounted_def initial_def handleFileChange_def pdf_file_def commit_def)

lemma ok_response_try: "upload_try (Inr (ok_response j)) = Inr (Some j)"
  by (simp add: upload_try_def ok_response_def ok_def)

lemma upload_abc_world:
  "run upload_abc mounted =
     \<lparr>ui = initial\<lparr>answerScript := Some pdf_file, questionPaper := Some pdf_file,
                   evaluationId := Some (lit ''abc123''),
                   uploadStatus := lit ''Evaluation in progress...'', isEvaluating := True\<rparr>,
      sources = [\<lparr>url = API_BASE_URL @ lit ''/evaluation-logs/'' @ lit ''abc123'',
                  withCredentials = True, readyState = CONNECTING\<rparr>],
      eventSource = Some 0, deps = (Some (lit ''abc123''), True),
      requests = [upload_request pdf_file pdf_file], page = []\<rparr>"
proof -
  have 1: "run upload_abc mounted =
      run [UploadClick, UploadSettled (Inr (ok_response (lit ''abc123'')))] (run two_pdfs mounted)"
    by (simp add: upload_abc_def two_pdfs_def)
  show ?thesis
    unfolding 1 two_pdfs_world
    by (simp add: mounted_def initial_def handleUpload_begin_def handleUpload_resume_def
          ok_response_try commit_def cleanup_def effect_def truthy_def lit_nonempty Let_def)
qed

lemma upload_abc_live: "live (run upload_abc mounted) 0"
  by (simp add: upload_abc_world live_def)

lemma streaming_world:
  "run streaming mounted =
     \<lparr>ui = initial\<lparr>answerScript := Some pdf_file, questionPaper := Some pdf_file,
                   evaluationId := Some (lit ''abc123''),
                   uploadStatus := lit ''Evaluation in progress...'', isEvaluating := True,
                   logs := [lit ''line1'']\<rparr>,
      sources = [\<lparr>url = API_BASE_URL @ lit ''/evaluation-logs/'' @ lit ''abc123'',
                  withCredentials = True, readyState = OPEN\<rparr>],
      eventSource = Some 0, deps = (Some (lit ''abc123''), True),
      requests = [upload_request pdf_file pdf_file], page = []\<rparr>"
proof -
  have 1: "run streaming mounted =
      run [StreamOpened 0, StreamMessage 0 (lit ''line1'')] (run upload_abc mounted)"
    by (simp add: streaming_def upload_abc_def two_pdfs_def)
  have 2: "trim (lit ''line1'') \<noteq> []"
    by (simp add: trim_def lit_def isWhiteSpace_def)
  show ?thesis
    unfolding 1 upload_abc_world
    by (simp add: initial_def set_ready_def live_def onmessage_def 2 commit_def)
qed


subsection \<open>The claims\<close>

text \<open>
  C1, amended. After any sequence of events, when both slots hold a file and the upload
  is answered with a status in 200--299 and a body whose \<open>evaluation_id\<close> is a non-empty
  string, the job id is that string, the status message is the evaluation-in-progress
  text, the session is evaluating, the log stream is empty, and the one subscription
  that is not closed is a new one for exactly that job id.
\<close>

theorem upload_success_opens_stream:
  "answerScript (ui (run es mounted)) = Some a \<and> questionPaper (ui (run es mounted)) = Some q \<and>
   ok response \<and> json response = Inr (JsonObject data) \<and> evaluation_id data = Some j \<and> j \<noteq> [] \<longrightarrow>
     evaluationId (ui (run [UploadClick, UploadSettled (Inr response)] (run es mounted))) = Some j \<and>
     uploadStatus (ui (run [UploadClick, UploadSettled (Inr response)] (run es mounted)))
       = lit ''Evaluation in progress...'' \<and>
     isEvaluating (ui (run [UploadClick, UploadSettled (Inr response)] (run es mounted))) \<and>
     logs (ui (run [UploadClick, UploadSettled (Inr response)] (run es mounted))) = [] \<and>
     subscriptions (run [UploadClick, UploadSettled (Inr response)] (run es mounted))
       = [\<lparr>url = API_BASE_URL @ lit ''/evaluation-logs/'' @ j, withCredentials = True,
           readyState = CONNECTING\<rparr>] \<and>
     requests (run [UploadClick, UploadSettled (Inr response)] (run es mounted))
       = requests (run es mounted) @ [upload_request a q]"
proof (intro impI, elim conjE)
  let ?r = "Inr response :: fetch_result"
  define w where "w = run es mounted"
  define w1 where "w1 = fire UploadClick w"
  define s2 where "s2 = handleUpload_resume ?r (ui w1)"
  assume "answerScript (ui (run es mounted)) = Some a" and "questionPaper (ui (run es mounted)) = Some q"
    and okr: "ok response" and js: "json response = Inr (JsonObject data)"
    and ev: "evaluation_id data = Some j" and ne: "j \<noteq> []"
  then have a: "answerScript (ui w) = Some a" and q: "questionPaper (ui w) = Some q"
    by (simp_all add: w_def)
  have tr: "upload_try ?r = Inr (Some j)"
    using okr js ev ok_not_502 by (simp add: upload_try_def)
  have c1: "consistent w1"
    unfolding w1_def w_def by (rule fire_consistent [OF reachable_consistent])
  have ui1: "ui w1 = (ui w)\<lparr>isLoading := True, error := None,
      uploadStatus := lit ''Uploading files...'', logs := [], isEvaluating := False\<rparr>"
    unfolding w1_def fire_UploadClick_populated [OF a q] by simp
  have rq1: "requests w1 = requests w @ [upload_request a q]"
    unfolding w1_def fire_UploadClick_populated [OF a q] by simp
  have s2: "s2 = (ui w1)\<lparr>evaluationId := Some j, uploadStatus := lit ''Evaluation in progress...'',
      isEvaluating := True, isLoading := False\<rparr>"
    by (simp add: s2_def handleUpload_resume_def tr)
  have w2: "run [UploadClick, UploadSettled ?r] (run es mounted) = commit (w1\<lparr>ui := s2\<rparr>)"
    by (simp add: w1_def w_def s2_def)
  have d1: "snd (deps w1) = False"
    using c1 ui1 by (simp add: consistent_def)
  have sub: "subscriptions (commit (w1\<lparr>ui := s2\<rparr>)) =
      [\<lparr>url = API_BASE_URL @ lit ''/evaluation-logs/'' @ j, withCredentials = True,
        readyState = CONNECTING\<rparr>]"
  proof -
    have "subscriptions (commit (w1\<lparr>ui := s2\<rparr>)) =
      (if truthy (evaluationId (ui (w1\<lparr>ui := s2\<rparr>))) \<and> isEvaluating (ui (w1\<lparr>ui := s2\<rparr>))
       then [\<lparr>url = API_BASE_URL @ lit ''/evaluation-logs/'' @ the (evaluationId (ui (w1\<lparr>ui := s2\<rparr>))),
             withCredentials = True, readyState = CONNECTING\<rparr>]
       else [])"
    proof (rule subscriptions_commit)
      fix i assume "live (w1\<lparr>ui := s2\<rparr>) i"
      then show "eventSource (w1\<lparr>ui := s2\<rparr>) = Some i"
        using c1 by (simp add: consistent_def)
    next
      show "deps (w1\<lparr>ui := s2\<rparr>) \<noteq> (evaluationId (ui (w1\<lparr>ui := s2\<rparr>)), isEvaluating (ui (w1\<lparr>ui := s2\<rparr>)))"
        using d1 by (auto simp: s2)
    qed
    then show ?thesis using ne by (simp add: s2 truthy_def)
  qed
  show "evaluationId (ui (run [UploadClick, UploadSettled ?r] (run es mounted))) = Some j \<and>
     uploadStatus (ui (run [UploadClick, UploadSettled ?r] (run es mounted))) = lit ''Evaluation in progress...'' \<and>
     isEvaluating (ui (run [UploadClick, UploadSettled ?r] (run es mounted))) \<and>
     logs (ui (run [UploadClick, UploadSettled ?r] (run es mounted))) = [] \<and>
     subscriptions (run [UploadClick, UploadSettled ?r] (run es mounted))
       = [\<lparr>url = API_BASE_URL @ lit ''/evaluation-logs/'' @ j, withCredentials = True,
           readyState = CONNECTING\<rparr>] \<and>
     requests (run [UploadClick, UploadSettled ?r] (run es mounted)) = requests (run es mounted) @ [upload_request a q]"
    unfolding w2 using sub rq1 by (simp add: s2 ui1 w_def)
qed

text \<open>
  C1 as stated fails when the body's \<open>evaluation_id\<close> is the empty string: the session is
  evaluating, and no subscription is opened.
\<close>

theorem upload_success_empty_id_counterexample:
  "answerScript (ui (run two_pdfs mounted)) = Some pdf_file \<and>
   questionPaper (ui (run two_pdfs mounted)) = Some pdf_file \<and>
   ok (ok_response []) \<and>
   json (ok_response []) =
     Inr (JsonObject \<lparr>data_status = Some (lit ''success''), message = Some (lit ''Files uploaded''),
                       evaluation_id = Some []\<rparr>) \<and>
   evaluationId (ui (run [UploadClick, UploadSettled (Inr (ok_response []))] (run two_pdfs mounted)))
     = Some [] \<and>
   isEvaluating (ui (run [UploadClick, UploadSettled (Inr (ok_response []))] (run two_pdfs mounted))) \<and>
   subscriptions (run [UploadClick, UploadSettled (Inr (ok_response []))] (run two_pdfs mounted)) = []"
  unfolding two_pdfs_world
  by (simp add: mounted_def initial_def handleUpload_begin_def handleUpload_resume_def
        ok_response_try commit_def cleanup_def effect_def truthy_def Let_def subscriptions_def)
    (simp add: ok_response_def ok_def)

text \<open>
  C1 (amended) at two PDFs and the job id \<open>abc123\<close>.
\<close>

theorem upload_success_opens_stream_witness:
  "answerScript (ui (run two_pdfs mounted)) = Some pdf_file \<and>
   questionPaper (ui (run two_pdfs mounted)) = Some pdf_file \<and>
   ok (ok_response (lit ''abc123'')) \<and>
   json (ok_response (lit ''abc123'')) =
     Inr (JsonObject \<lparr>data_status = Some (lit ''success''), message = Some (lit ''Files uploaded''),
                       evaluation_id = Some (lit ''abc123'')\<rparr>) \<and>
   lit ''abc123'' \<noteq> [] \<and>
   evaluationId (ui (run [UploadClick, UploadSettled (Inr (ok_response (lit ''abc123'')))]
                         (run two_pdfs mounted))) = Some (lit ''abc123'') \<and>
   isEvaluating (ui (run [UploadClick, UploadSettled (Inr (ok_response (lit ''abc123'')))]
                         (run two_pdfs mounted))) \<and>
   logs (ui (run [UploadClick, UploadSettled (Inr (ok_response (lit ''abc123'')))]
                 (run two_pdfs mounted))) = [] \<and>
   subscriptions (run [UploadClick, UploadSettled (Inr (ok_response (lit ''abc123'')))]
                      (run two_pdfs mounted)) =
     [\<lparr>url = API_BASE_URL @ lit ''/evaluation-logs/'' @ lit ''abc123'', withCredentials = True,
       readyState = CONNECTING\<rparr>]"
proof -
  have a: "answerScript (ui (run two_pdfs mounted)) = Some pdf_file"
    and q: "questionPaper (ui (run two_pdfs mounted)) = Some pdf_file"
    unfolding two_pdfs_world by (simp_all add: mounted_def initial_def)
  have k: "ok (ok_response (lit ''abc123''))"
    by (simp add: ok_response_def ok_def)
  have j: "json (ok_response (lit ''abc123'')) =
      Inr (JsonObject \<lparr>data_status = Some (lit ''success''), message = Some (lit ''Files uploaded''),
            evaluation_id = Some (lit ''abc123'')\<rparr>)"
    by (simp add: ok_response_def)
  have e: "evaluation_id \<lparr>data_status = Some (lit ''success''), message = Some (lit ''Files uploaded''),
            evaluation_id = Some (lit ''abc123'')\<rparr> = Some (lit ''abc123'')"
    by simp
  have n: "lit ''abc123'' \<noteq> []"
    by (rule lit_nonempty)
  from a q k j e n
    upload_success_opens_stream [of two_pdfs pdf_file pdf_file "ok_response (lit ''abc123'')"
          "\<lparr>data_status = Some (lit ''success''), message = Some (lit ''Files uploaded''),
            evaluation_id = Some (lit ''abc123'')\<rparr>" "lit ''abc123''"]
  show ?thesis by blast
qed

text \<open>
  C2, as the code behaves. An error event on a subscription that is not closed closes it,
  ends evaluating with the completion text and keeps the log lines; and it sets the
  connectivity error message whatever state the transport reported, because the handler
  closes the source before it reads the source's state.
\<close>

theorem stream_error_always_reports:
  "live (run es mounted) i \<longrightarrow>
     gone (fire (StreamError i rs) (run es mounted)) i \<and>
     subscriptions (fire (StreamError i rs) (run es mounted)) = [] \<and>
     \<not> isEvaluating (ui (fire (StreamError i rs) (run es mounted))) \<and>
     uploadStatus (ui (fire (StreamError i rs) (run es mounted))) = lit ''Evaluation completed'' \<and>
     logs (ui (fire (StreamError i rs) (run es mounted))) = logs (ui (run es mounted)) \<and>
     error (ui (fire (StreamError i rs) (run es mounted))) =
       Some (lit ''Connection to server lost. Please refresh the page and try again.'')"
proof
  define w where "w = run es mounted"
  define w' where "w' = onerror i True (set_ready i rs w)"
  assume "live (run es mounted) i"
  then have l: "live w i" by (simp add: w_def)
  then have i: "i < length (sources w)" by (simp add: live_def)
  have c: "consistent (fire (StreamError i rs) w)"
    unfolding w_def by (rule fire_consistent [OF reachable_consistent])
  have f: "fire (StreamError i rs) w = commit w'"
    using l by (simp add: w'_def)
  have cl: "readyState (sources (close i (set_ready i rs w)) ! i) = CLOSED"
    using i by (simp add: close_def set_ready_def)
  have u: "ui w' = (ui w)\<lparr>isEvaluating := False, uploadStatus := lit ''Evaluation completed'',
      error := Some (lit ''Connection to server lost. Please refresh the page and try again.'')\<rparr>"
    using cl by (simp add: w'_def onerror_def Let_def) (simp add: close_def set_ready_def)
  have g: "gone w' i"
    using i by (simp add: w'_def gone_def sources_onerror set_ready_def)
  have q: "subscriptions (commit w') = []"
    using c unfolding f by (rule consistent_idle) (simp add: u)
  show "gone (fire (StreamError i rs) (run es mounted)) i \<and>
     subscriptions (fire (StreamError i rs) (run es mounted)) = [] \<and>
     \<not> isEvaluating (ui (fire (StreamError i rs) (run es mounted))) \<and>
     uploadStatus (ui (fire (StreamError i rs) (run es mounted))) = lit ''Evaluation completed'' \<and>
     logs (ui (fire (StreamError i rs) (run es mounted))) = logs (ui (run es mounted)) \<and>
     error (ui (fire (StreamError i rs) (run es mounted))) =
       Some (lit ''Connection to server lost. Please refresh the page and try again.'')"
    unfolding w_def [symmetric] f using q gone_commit [OF g] by (simp add: u)
qed

text \<open>
  C2 at a stream that delivered one line and then dropped while the transport reports
  that it is reconnecting: the connectivity error message is set all the same.
\<close>

theorem stream_error_always_reports_witness:
  "live (run streaming mounted) 0 \<and>
   readyState (sources (set_ready 0 CONNECTING (run streaming mounted)) ! 0) \<noteq> CLOSED \<and>
   gone (fire (StreamError 0 CONNECTING) (run streaming mounted)) 0 \<and>
   subscriptions (fire (StreamError 0 CONNECTING) (run streaming mounted)) = [] \<and>
   \<not> isEvaluating (ui (fire (StreamError 0 CONNECTING) (run streaming mounted))) \<and>
   uploadStatus (ui (fire (StreamError 0 CONNECTING) (run streaming mounted))) = lit ''Evaluation completed'' \<and>
   logs (ui (fire (StreamError 0 CONNECTING) (run streaming mounted))) = [lit ''line1''] \<and>
   error (ui (fire (StreamError 0 CONNECTING) (run streaming mounted))) =
     Some (lit ''Connection to server lost. Please refresh the page and try again.'')"
proof -
  have h: "live (run streaming mounted) 0"
    by (simp add: streaming_world live_def)
  have t: "readyState (sources (set_ready 0 CONNECTING (run streaming mounted)) ! 0) \<noteq> CLOSED"
    by (simp add: streaming_world set_ready_def)
  have lg: "logs (ui (run streaming mounted)) = [lit ''line1'']"
    by (simp add: streaming_world initial_def)
  from h t lg stream_error_always_reports [of streaming 0 CONNECTING] show ?thesis
    by (simp only: simp_thms)
qed

text \<open>
  C3. A sequence of message events on a subscription that is not closed appends exactly
  the payloads that are not blank, one line each, in arrival order; the payloads
  \<open>""\<close>, two spaces, \<open>line1\<close>, a line feed, \<open>line2\<close> after a successful upload give the
  log stream \<open>line1\<close>, \<open>line2\<close>.
\<close>

theorem stream_appends_nonblank:
  "(live (run es mounted) i \<longrightarrow>
      logs (ui (run (map (StreamMessage i) ps) (run es mounted))) =
        logs (ui (run es mounted)) @ filter (\<lambda>p. \<not> blank p) ps) \<and>
   logs (ui (run (map (StreamMessage 0) [[], lit ''  '', lit ''line1'', [0x000A], lit ''line2''])
                 (run upload_abc mounted))) = [lit ''line1'', lit ''line2'']"
proof
  show "live (run es mounted) i \<longrightarrow>
      logs (ui (run (map (StreamMessage i) ps) (run es mounted))) =
        logs (ui (run es mounted)) @ filter (\<lambda>p. \<not> blank p) ps"
    using messages_append [OF reachable_consistent] by blast
next
  have "logs (ui (run (map (StreamMessage 0) [[], lit ''  '', lit ''line1'', [0x000A], lit ''line2''])
                 (run upload_abc mounted))) =
      logs (ui (run upload_abc mounted)) @
        filter (\<lambda>p. \<not> blank p) [[], lit ''  '', lit ''line1'', [0x000A], lit ''line2'']"
    using upload_abc_live by (rule messages_append [OF reachable_consistent])
  moreover have "logs (ui (run upload_abc mounted)) = []"
    by (simp add: upload_abc_world initial_def)
  moreover have "filter (\<lambda>p. \<not> blank p) [[], lit ''  '', lit ''line1'', [0x000A], lit ''line2'']
      = [lit ''line1'', lit ''line2'']"
    by (simp add: blank_def lit_def isWhiteSpace_def)
  ultimately show "logs (ui (run (map (StreamMessage 0) [[], lit ''  '', lit ''line1'', [0x000A], lit ''line2''])
                 (run upload_abc mounted))) = [lit ''line1'', lit ''line2'']"
    by simp
qed

text \<open>
  C3 at a stream that already holds \<open>line1\<close>.
\<close>

theorem stream_appends_nonblank_witness:
  "live (run streaming mounted) 0 \<and>
   logs (ui (run (map (StreamMessage 0) [lit ''  '', lit ''line2'', []]) (run streaming mounted))) =
     [lit ''line1'', lit ''line2'']"
proof -
  have h: "live (run streaming mounted) 0"
    by (simp add: streaming_world live_def)
  have lg: "logs (ui (run streaming mounted)) = [lit ''line1'']"
    by (simp add: streaming_world initial_def)
  have fl: "filter (\<lambda>p. \<not> blank p) [lit ''  '', lit ''line2'', []] = [lit ''line2'']"
    by (simp add: blank_def lit_def isWhiteSpace_def)
  from stream_appends_nonblank [of streaming 0 "[lit ''  '', lit ''line2'', []]"] h
  have "logs (ui (run (map (StreamMessage 0) [lit ''  '', lit ''line2'', []]) (run streaming mounted))) =
      logs (ui (run streaming mounted)) @ filter (\<lambda>p. \<not> blank p) [lit ''  '', lit ''line2'', []]"
    by blast
  with h show ?thesis by (simp only: lg fl) simp
qed

text \<open>
  C4. A response with status 502 yields the same ``server unavailable'' message for upload
  and for download, whatever the body of the response is.
\<close>

theorem unavailable_message_shared:
  "status response = 502 \<longrightarrow>
     error (handleUpload_resume (Inr response) s) = Some (lit ''Server is currently unavailable. Please try again in a few moments.'') \<and>
     error (fst (handleDownload_resume j (Inr response) s)) = Some (lit ''Server is currently unavailable. Please try again in a few moments.'') \<and>
     (answerScript s \<noteq> None \<and> questionPaper s \<noteq> None \<longrightarrow>
        error (fst (handleUpload (Inr response) s)) = Some (lit ''Server is currently unavailable. Please try again in a few moments.'')) \<and>
     (truthy (evaluationId s) \<longrightarrow>
        error (fst (handleDownload (Inr response) s)) = Some (lit ''Server is currently unavailable. Please try again in a few moments.''))"
  by (auto simp: handleUpload_resume_def upload_try_def handleDownload_resume_def download_try_def
        handleUpload_def handleUpload_begin_def handleDownload_def handleDownload_begin_def)

text \<open>
  C4 at a 502 response whose body is not JSON, on a session that holds two PDFs and a job id.
\<close>

theorem unavailable_message_shared_witness:
  "status (html_error_response\<lparr>status := 502\<rparr>) = 502 \<and>
   answerScript (ui (run upload_abc mounted)) \<noteq> None \<and>
   questionPaper (ui (run upload_abc mounted)) \<noteq> None \<and>
   truthy (evaluationId (ui (run upload_abc mounted))) \<and>
   error (fst (handleUpload (Inr (html_error_response\<lparr>status := 502\<rparr>)) (ui (run upload_abc mounted))))
     = Some (lit ''Server is currently unavailable. Please try again in a few moments.'') \<and>
   error (fst (handleDownload (Inr (html_error_response\<lparr>status := 502\<rparr>)) (ui (run upload_abc mounted))))
     = Some (lit ''Server is currently unavailable. Please try again in a few moments.'')"
proof -
  have s: "status (html_error_response\<lparr>status := 502\<rparr>) = 502"
    by simp
  have h: "answerScript (ui (run upload_abc mounted)) \<noteq> None"
      "questionPaper (ui (run upload_abc mounted)) \<noteq> None"
      "truthy (evaluationId (ui (run upload_abc mounted)))"
    by (simp_all add: upload_abc_world initial_def truthy_def lit_nonempty)
  from s h
    unavailable_message_shared [of "html_error_response\<lparr>status := 502\<rparr>" "ui (run upload_abc mounted)" "lit ''abc123''"]
  show ?thesis by blast
qed

text \<open>
  C5, amended. For an upload response with a status outside 200--299 other than 502: when
  the body parses to a value other than \<open>null\<close>, the error message is the \<open>message\<close>
  field if it is present and not empty, and otherwise \<open>Upload failed (Status: N)\<close>; when
  the body does not parse, the error message is the message of the parse error; when the
  body parses to \<open>null\<close>, it is the message of the \<open>TypeError\<close> that reading
  \<open>data.message\<close> throws.
\<close>

theorem upload_error_message:
  "status response \<noteq> 502 \<and> \<not> ok response \<longrightarrow>
     (json response = Inr (JsonObject data) \<longrightarrow>
        (message data = Some m \<and> m \<noteq> [] \<longrightarrow>
           error (handleUpload_resume (Inr response) s) = Some m) \<and>
        (message data = None \<or> message data = Some [] \<longrightarrow>
           error (handleUpload_resume (Inr response) s) =
             Some (lit ''Upload failed (Status: '' @ toString (status response) @ lit '')''))) \<and>
     (json response = Inl (Error m) \<longrightarrow>
        error (handleUpload_resume (Inr response) s) = Some m) \<and>
     (json response = Inr JsonNull \<longrightarrow>
        error (handleUpload_resume (Inr response) s) = Some (TypeError_null (lit ''message'')))"
  by (auto simp: handleUpload_resume_def upload_try_def truthy_def)

text \<open>
  C5 as stated fails: a 500 response whose body is not JSON surfaces the parser's message,
  and a 500 response whose body is \<open>null\<close> surfaces the message of a \<open>TypeError\<close>; neither
  is the templated message.
\<close>

theorem upload_error_not_json_counterexample:
  "status html_error_response = 500 \<and> \<not> ok html_error_response \<and>
   error (handleUpload_resume (Inr html_error_response) initial)
     = Some (lit ''Unexpected token < in JSON at position 0'') \<and>
   error (handleUpload_resume (Inr html_error_response) initial)
     \<noteq> Some (lit ''Upload failed (Status: '' @ toString 500 @ lit '')'') \<and>
   status null_error_response = 500 \<and> \<not> ok null_error_response \<and>
   error (handleUpload_resume (Inr null_error_response) initial)
     = Some (TypeError_null (lit ''message'')) \<and>
   error (handleUpload_resume (Inr null_error_response) initial)
     \<noteq> Some (lit ''Upload failed (Status: '' @ toString 500 @ lit '')'')"
  by (simp add: html_error_response_def null_error_response_def ok_def handleUpload_resume_def
        upload_try_def TypeError_null_def lit_def)

text \<open>
  C5 (amended) at four responses: a 404 with a message, a 404 without one, a 500 whose
  body is an HTML page, and a 500 whose body is \<open>null\<close>.
\<close>

theorem upload_error_message_witness:
  "status (json_error_response (Some (lit ''No such job''))) \<noteq> 502 \<and>
   \<not> ok (json_error_response (Some (lit ''No such job''))) \<and>
   error (handleUpload_resume (Inr (json_error_response (Some (lit ''No such job'')))) initial)
     = Some (lit ''No such job'') \<and>
   error (handleUpload_resume (Inr (json_error_response None)) initial)
     = Some (lit ''Upload failed (Status: 404)'') \<and>
   error (handleUpload_resume (Inr html_error_response) initial)
     = Some (lit ''Unexpected token < in JSON at position 0'') \<and>
   error (handleUpload_resume (Inr null_error_response) initial)
     = Some (lit ''Cannot read properties of null (reading '' @ [0x0027] @ lit ''message''
             @ [0x0027] @ lit '')'')"
proof -
  have t: "toString 404 = lit ''404''"
    by (simp add: toString.simps lit_def)
  have n: "lit ''No such job'' \<noteq> []"
    by (rule lit_nonempty)
  have l: "lit ''Upload failed (Status: '' @ lit ''404'' @ lit '')'' = lit ''Upload failed (Status: 404)''"
    by (simp add: lit_def)
  from n t l
    upload_error_message [of "json_error_response (Some (lit ''No such job''))"
          "\<lparr>data_status = Some (lit ''error''), message = Some (lit ''No such job''), evaluation_id = None\<rparr>"
          "lit ''No such job''" initial]
    upload_error_message [of "json_error_response None"
          "\<lparr>data_status = Some (lit ''error''), message = None, evaluation_id = None\<rparr>"
          "[]" initial]
    upload_error_message [of html_error_response
          "\<lparr>data_status = Some (lit ''error''), message = None, evaluation_id = None\<rparr>"
          "lit ''Unexpected token < in JSON at position 0''" initial]
    upload_error_message [of null_error_response
          "\<lparr>data_status = Some (lit ''error''), message = None, evaluation_id = None\<rparr>"
          "[]" initial]
  show ?thesis
    by (simp add: json_error_response_def html_error_response_def null_error_response_def ok_def
          TypeError_null_def)
qed



text \<open>
  C7. Selecting a file whose declared media type is not exactly \<open>application/pdf\<close> leaves
  both slots as they were and sets the validation error; selecting a file whose media
  type is exactly \<open>application/pdf\<close> stores it in the chosen slot and clears the error.
\<close>

theorem handleFileChange_validates: 
  "(type f \<noteq> lit ''application/pdf'' \<longrightarrow>
      selected answer (handleFileChange (Some f) ty s) = selected answer s \<and>
      selected question (handleFileChange (Some f) ty s) = selected question s \<and>
      error (handleFileChange (Some f) ty s) = Some (lit ''Please upload a valid PDF file'')) \<and>
   (type f = lit ''application/pdf'' \<longrightarrow>
      selected ty (handleFileChange (Some f) ty s) = Some f \<and>
      error (handleFileChange (Some f) ty s) = None)"
  by (cases ty) (simp_all add: handleFileChange_def selected_def)

text \<open>
  C7 at two selections: an image offered for a slot that already holds a PDF, and a PDF
  selected while a validation error is shown.
\<close>

theorem handleFileChange_validates_witness:
  "type png_file \<noteq> lit ''application/pdf'' \<and>
   selected answer (handleFileChange (Some png_file) answer (initial\<lparr>answerScript := Some pdf_file\<rparr>)) = Some pdf_file \<and>
   error (handleFileChange (Some png_file) answer (initial\<lparr>answerScript := Some pdf_file\<rparr>))
     = Some (lit ''Please upload a valid PDF file'') \<and>
   type pdf_file = lit ''application/pdf'' \<and>
   selected question (handleFileChange (Some pdf_file) question (initial\<lparr>error := Some (lit ''Please upload a valid PDF file'')\<rparr>)) = Some pdf_file \<and>
   error (handleFileChange (Some pdf_file) question (initial\<lparr>error := Some (lit ''Please upload a valid PDF file'')\<rparr>)) = None"
  using handleFileChange_validates [of png_file answer "initial\<lparr>answerScript := Some pdf_file\<rparr>"]
        handleFileChange_validates [of pdf_file question "initial\<lparr>error := Some (lit ''Please upload a valid PDF file'')\<rparr>"]
  by (simp add: png_file_def pdf_file_def lit_def selected_def)

text \<open>
  C8. With a file slot empty, \<open>handleUpload\<close> sends no request and changes nothing but the
  error message; with no job id, \<open>handleDownload\<close> sends no request and changes nothing.
  Both are stated for the handlers on any state and for the mounted component after any
  sequence of events.
\<close>

theorem guards_are_noops:
  "(answerScript s = None \<or> questionPaper s = None \<longrightarrow>
      handleUpload r s = (s\<lparr>error := Some (lit ''Please upload both answer script and question paper'')\<rparr>, []))
   \<and> (evaluationId s = None \<longrightarrow> handleDownload r' s = (s, [], []))
   \<and> (answerScript (ui (run es mounted)) = None \<or> questionPaper (ui (run es mounted)) = None \<longrightarrow>
      fire UploadClick (run es mounted) =
        (run es mounted)\<lparr>ui := (ui (run es mounted))\<lparr>error :=
           Some (lit ''Please upload both answer script and question paper'')\<rparr>\<rparr>)
   \<and> (evaluationId (ui (run es mounted)) = None \<longrightarrow>
      fire DownloadClick (run es mounted) = run es mounted)"
proof -
  have d: "deps (run es mounted) = (evaluationId (ui (run es mounted)), isEvaluating (ui (run es mounted)))"
    using reachable_consistent [of es] by (simp add: consistent_def)
  have 1: "answerScript s = None \<or> questionPaper s = None \<Longrightarrow>
      handleUpload r s = (s\<lparr>error := Some (lit ''Please upload both answer script and question paper'')\<rparr>, [])"
    by (auto simp: handleUpload_def handleUpload_begin_def split: option.splits)
  have 2: "evaluationId s = None \<Longrightarrow> handleDownload r' s = (s, [], [])"
    by (simp add: handleDownload_def handleDownload_begin_def truthy_def)
  have 3: "answerScript (ui (run es mounted)) = None \<or> questionPaper (ui (run es mounted)) = None \<Longrightarrow>
      fire UploadClick (run es mounted) =
        (run es mounted)\<lparr>ui := (ui (run es mounted))\<lparr>error :=
           Some (lit ''Please upload both answer script and question paper'')\<rparr>\<rparr>"
    using d by (auto simp: handleUpload_begin_def commit_same split: option.splits)
  have 4: "evaluationId (ui (run es mounted)) = None \<Longrightarrow>
      fire DownloadClick (run es mounted) = run es mounted"
    by (simp add: handleDownload_begin_def truthy_def)
  from 1 2 3 4 show ?thesis by blast
qed

text \<open>
  C8 at the freshly mounted component: no file chosen, no job id.
\<close>

theorem guards_are_noops_witness:
  "(answerScript initial = None \<or> questionPaper initial = None) \<and>
   handleUpload (Inl NonError) initial = (initial\<lparr>error := Some (lit ''Please upload both answer script and question paper'')\<rparr>, []) \<and>
   evaluationId initial = None \<and> handleDownload (Inl NonError) initial = (initial, [], []) \<and>
   (answerScript (ui (run [] mounted)) = None \<or> questionPaper (ui (run [] mounted)) = None) \<and>
   fire UploadClick (run [] mounted) = (run [] mounted)\<lparr>ui := (ui (run [] mounted))\<lparr>error :=
           Some (lit ''Please upload both answer script and question paper'')\<rparr>\<rparr> \<and>
   evaluationId (ui (run [] mounted)) = None \<and>
   fire DownloadClick (run [] mounted) = run [] mounted"
  using guards_are_noops [of initial "Inl NonError" "Inl NonError" "[]"]
  by (simp add: initial_def mounted_def)

text \<open>
  C9. Every file name \<open>handleDownload\<close> offers for saving is
  \<open>evaluated_script_\<close> followed by the job id and \<open>.pdf\<close>, a successful download
  offers exactly that one name, and for the job id \<open>xyz\<close> it is
  \<open>evaluated_script_xyz.pdf\<close>.
\<close>

theorem download_filename:
  "(evaluationId s = Some j \<longrightarrow>
      set (saved_names (snd (snd (handleDownload r s)))) \<subseteq> {lit ''evaluated_script_'' @ j @ lit ''.pdf''}) \<and>
   (evaluationId s = Some j \<and> j \<noteq> [] \<and> ok response \<and> blob response = Inr b \<longrightarrow>
      saved_names (snd (snd (handleDownload (Inr response) s))) = [lit ''evaluated_script_'' @ j @ lit ''.pdf'']) \<and>
   (evaluationId s = Some (lit ''xyz'') \<and> ok response \<and> blob response = Inr b \<longrightarrow>
      saved_names (snd (snd (handleDownload (Inr response) s))) = [lit ''evaluated_script_xyz.pdf''])"
proof -
  have ok502: "ok response \<Longrightarrow> status response \<noteq> 502"
    by (simp add: ok_def)
  have 1: "evaluationId s = Some j \<Longrightarrow>
      set (saved_names (snd (snd (handleDownload r s)))) \<subseteq> {lit ''evaluated_script_'' @ j @ lit ''.pdf''}"
    by (auto simp: handleDownload_def handleDownload_begin_def handleDownload_resume_def
          download_try_def Let_def split: sum.splits if_splits)
  have 2: "evaluationId s = Some j \<Longrightarrow> j \<noteq> [] \<Longrightarrow> ok response \<Longrightarrow> blob response = Inr b \<Longrightarrow>
      saved_names (snd (snd (handleDownload (Inr response) s))) = [lit ''evaluated_script_'' @ j @ lit ''.pdf'']" for j
    using ok502
    by (simp add: handleDownload_def handleDownload_begin_def handleDownload_resume_def
          download_try_def Let_def truthy_def)
  have 3: "lit ''evaluated_script_'' @ lit ''xyz'' @ lit ''.pdf'' = lit ''evaluated_script_xyz.pdf''"
    by (simp add: lit_def)
  have 4: "lit ''xyz'' \<noteq> []" by (simp add: lit_def)
  show ?thesis using 1 2 [of j] 2 [of "lit ''xyz''"] 3 4 by simp
qed

text \<open>
  C9 at the job id \<open>xyz\<close> and a successful response.
\<close>

theorem download_filename_witness:
  "evaluationId (initial\<lparr>evaluationId := Some (lit ''xyz'')\<rparr>) = Some (lit ''xyz'') \<and>
   lit ''xyz'' \<noteq> [] \<and> ok (ok_response []) \<and> blob (ok_response []) = Inr [] \<and>
   saved_names (snd (snd (handleDownload (Inr (ok_response [])) (initial\<lparr>evaluationId := Some (lit ''xyz'')\<rparr>))))
     = [lit ''evaluated_script_xyz.pdf'']"
proof -
  have k: "ok (ok_response [])" "blob (ok_response []) = Inr []"
    by (simp_all add: ok_response_def ok_def)
  have n: "lit ''xyz'' \<noteq> []"
    by (rule lit_nonempty)
  have e: "evaluationId (initial\<lparr>evaluationId := Some (lit ''xyz'')\<rparr>) = Some (lit ''xyz'')"
    by simp
  from e k n
    download_filename [of "initial\<lparr>evaluationId := Some (lit ''xyz'')\<rparr>" "lit ''xyz''" "Inr (ok_response [])"
          "ok_response []" "[]"]
  show ?thesis by blast
qed

text \<open>
  C10. A failed upload attempt (no response, status 502, another status outside 200--299,
  or a body that does not parse) leaves the job id as it was and the log stream empty, so
  a download afterwards sends the request that a download before the attempt would have
  sent: the one for the earlier job.
\<close>

theorem failed_upload_keeps_job:
  "answerScript s \<noteq> None \<and> questionPaper s \<noteq> None \<and> failed_attempt r \<longrightarrow>
     evaluationId (fst (handleUpload r s)) = evaluationId s \<and>
     logs (fst (handleUpload r s)) = [] \<and>
     handleDownload_begin (fst (handleUpload r s)) = handleDownload_begin s \<and>
     (evaluationId s = Some j \<and> j \<noteq> [] \<longrightarrow>
        fst (snd (handleDownload r' (fst (handleUpload r s)))) = [download_request j] \<and>
        resource (download_request j) = API_BASE_URL @ lit ''/get-evaluated-pdf/'' @ j)"
proof (intro impI, elim conjE)
  assume a: "answerScript s \<noteq> None" and q: "questionPaper s \<noteq> None" and f: "failed_attempt r"
  from a q obtain x y where xy: "answerScript s = Some x" "questionPaper s = Some y"
    by auto
  from f obtain e where e: "upload_try r = Inl e"
    using failed_attempt_throws by blast
  let ?s' = "fst (handleUpload r s)"
  have id: "evaluationId ?s' = evaluationId s" and lg: "logs ?s' = []"
    using handleUpload_resume_failed [OF e] by (simp_all add: handleUpload_populated [OF xy])
  have dl: "handleDownload_begin ?s' = handleDownload_begin s"
    using id by (simp add: handleDownload_begin_def)
  have tgt: "fst (snd (handleDownload r' ?s')) = [download_request j]"
    if "evaluationId s = Some j" "j \<noteq> []"
    using that id
    by (simp add: handleDownload_def handleDownload_begin_def truthy_def split: prod.splits)
  have res: "resource (download_request j) = API_BASE_URL @ lit ''/get-evaluated-pdf/'' @ j"
    by (simp add: download_request_def)
  from id lg dl tgt res
  show "evaluationId ?s' = evaluationId s \<and> logs ?s' = [] \<and>
     handleDownload_begin ?s' = handleDownload_begin s \<and>
     (evaluationId s = Some j \<and> j \<noteq> [] \<longrightarrow>
        fst (snd (handleDownload r' ?s')) = [download_request j] \<and>
        resource (download_request j) = API_BASE_URL @ lit ''/get-evaluated-pdf/'' @ j)"
    by blast
qed

text \<open>
  C10 at a session that holds the job \<open>abc123\<close> and a second upload answered with a 500
  HTML page.
\<close>

theorem failed_upload_keeps_job_witness:
  "answerScript (ui (run upload_abc mounted)) \<noteq> None \<and>
   questionPaper (ui (run upload_abc mounted)) \<noteq> None \<and>
   failed_attempt (Inr html_error_response) \<and>
   evaluationId (ui (run upload_abc mounted)) = Some (lit ''abc123'') \<and>
   lit ''abc123'' \<noteq> [] \<and>
   evaluationId (fst (handleUpload (Inr html_error_response) (ui (run upload_abc mounted))))
     = Some (lit ''abc123'') \<and>
   logs (fst (handleUpload (Inr html_error_response) (ui (run upload_abc mounted)))) = [] \<and>
   fst (snd (handleDownload (Inr (ok_response []))
              (fst (handleUpload (Inr html_error_response) (ui (run upload_abc mounted))))))
     = [download_request (lit ''abc123'')]"
proof -
  have h: "answerScript (ui (run upload_abc mounted)) \<noteq> None"
      "questionPaper (ui (run upload_abc mounted)) \<noteq> None"
      "evaluationId (ui (run upload_abc mounted)) = Some (lit ''abc123'')"
    by (simp_all add: upload_abc_world initial_def)
  have f: "failed_attempt (Inr html_error_response)"
    by (simp add: failed_attempt_def html_error_response_def ok_def)
  have n: "lit ''abc123'' \<noteq> []"
    by (rule lit_nonempty)
  from h f n
    failed_upload_keeps_job [of "ui (run upload_abc mounted)" "Inr html_error_response" "lit ''abc123''" "Inr (ok_response [])"]
  show ?thesis by simp
qed

end
